theory Spec2Isabelle
  imports
    Complex_Main
    "HOL-Library.Char_ord"
    "HOL-Library.List_Lexorder"
    "HOL-Library.Multiset"
begin

section \<open>Python strings\<close>

text \<open>
  A Python \<open>str\<close> is a sequence of code points. It is modelled as a \<open>string\<close> in which every
  \<open>char\<close> stands for one code point below 256 (ASCII and Latin-1), so the character
  classes below are the restrictions of Python's \<open>str.isspace\<close>, \<open>str.isdigit\<close>,
  \<open>str.isdecimal\<close> and \<open>str.lower\<close> to that range. Strings are ordered by code point,
  as Python orders them.
\<close>

definition py_isspace :: "char \<Rightarrow> bool" where
  "py_isspace c =
     (let n = (of_char c :: nat)
      in (9 \<le> n \<and> n \<le> 13) \<or> (28 \<le> n \<and> n \<le> 32) \<or> n = 133 \<or> n = 160)"

definition strip :: "string \<Rightarrow> string" where
  "strip s = rev (dropWhile py_isspace (rev (dropWhile py_isspace s)))"

definition py_isdecimal_char :: "char \<Rightarrow> bool" where
  "py_isdecimal_char c = (let n = (of_char c :: nat) in 48 \<le> n \<and> n \<le> 57)"

definition py_isdigit_char :: "char \<Rightarrow> bool" where
  \<comment> \<open>The decimal digits, and the superscripts two, three and one.\<close>
  "py_isdigit_char c =
     (let n = (of_char c :: nat) in (48 \<le> n \<and> n \<le> 57) \<or> n = 178 \<or> n = 179 \<or> n = 185)"

definition isdigit :: "string \<Rightarrow> bool" where
  \<comment> \<open>\<open>s.isdigit()\<close>: at least one character, and all of them digits.\<close>
  "isdigit s = (s \<noteq> [] \<and> list_all py_isdigit_char s)"

definition py_lower_char :: "char \<Rightarrow> char" where
  "py_lower_char c =
     (let n = (of_char c :: nat)
      in if (65 \<le> n \<and> n \<le> 90) \<or> (192 \<le> n \<and> n \<le> 222 \<and> n \<noteq> 215)
         then char_of (n + 32) else c)"

definition lower :: "string \<Rightarrow> string" where
  "lower s = map py_lower_char s"

definition endswith :: "string \<Rightarrow> string \<Rightarrow> bool" where
  "endswith s suffix =
     (length suffix \<le> length s \<and> drop (length s - length suffix) s = suffix)"

fun join :: "string \<Rightarrow> string list \<Rightarrow> string" where
  "join sep [] = []"
| "join sep [p] = p"
| "join sep (p # q # ps) = p @ sep @ join sep (q # ps)"

datatype error =
    PickleNotFound
  | NoExcelFiles
  | NoValidExcel
  | MissingColumn string
  | ValueError string
  | TypeError

definition digit_value :: "char \<Rightarrow> int" where
  "digit_value c = int (of_char c) - 48"

definition py_int :: "string \<Rightarrow> error + int" where
  \<comment> \<open>\<open>int(s)\<close> on a string that passed \<open>isdigit\<close>: the decimal value when every character
      is a decimal digit and there are at most 4300 of them, the limit of CPython; a
      superscript digit is no decimal digit and \<open>int\<close> raises. The error holds the string.\<close>
  "py_int s =
     (if s \<noteq> [] \<and> list_all py_isdecimal_char s \<and> length s \<le> 4300
      then Inr (foldl (\<lambda>acc c. 10 * acc + digit_value c) 0 s)
      else Inl (ValueError s))"

section \<open>Region names\<close>

text \<open>
  A cell of one of the three label columns, as \<open>row.get(col)\<close> returns it: \<open>None\<close> (also
  when the row has no such column), the missing marker NaN of pandas, or a text.
\<close>

datatype label = LNone | LNaN | LStr string

fun truthy :: "label \<Rightarrow> bool" where
  "truthy LNone = False"
| "truthy LNaN = True"
| "truthy (LStr s) = (s \<noteq> [])"

fun py_str :: "label \<Rightarrow> string" where
  "py_str LNone = ''None''"
| "py_str LNaN = ''nan''"
| "py_str (LStr s) = s"

record region =
  NUTS_ID :: "string option"
  NUTS_Level_1 :: label
  NUTS_Level_2 :: label
  NUTS_Level_3 :: label
  geometry :: nat

definition name_parts :: "label list \<Rightarrow> string list" where
  \<comment> \<open>The loop over the three columns that fills \<open>parts\<close>.\<close>
  "name_parts vals =
     concat (map (\<lambda>val. if truthy val \<and> strip (py_str val) \<noteq> []
                         then [strip (py_str val)] else []) vals)"

definition get_nuts_info :: "('a region_scheme) \<Rightarrow> string \<times> string option" where
  "get_nuts_info row =
     (let parts = name_parts [NUTS_Level_1 row, NUTS_Level_2 row, NUTS_Level_3 row];
          nuts_name = (if parts \<noteq> [] then join '' - '' parts else []);
          nuts_code = NUTS_ID row
      in (nuts_name, nuts_code))"

section \<open>Python floats\<close>

text \<open>
  A Python \<open>float\<close> is an IEEE 754 binary64 number. A finite one is modelled as the rational
  it denotes, and an arithmetic operation as the exact operation followed by rounding to the
  nearest representable number, ties to the even significand (53 bits, least exponent
  \<open>-1074\<close>). Infinities are left out: adding or subtracting \<open>1e-6\<close> never overflows.
\<close>

function bit_length :: "int \<Rightarrow> nat" where
  "bit_length n = (if n \<le> 0 then 0 else Suc (bit_length (n div 2)))"
  by pat_completeness auto
termination
  by (relation "measure nat") auto

definition floor_log2 :: "rat \<Rightarrow> int" where
  \<comment> \<open>For \<open>0 < q\<close>, the exponent \<open>e\<close> with \<open>2 ^ e \<le> q < 2 ^ (e + 1)\<close>.\<close>
  "floor_log2 q =
     (if 1 \<le> q then int (bit_length \<lfloor>q\<rfloor>) - 1
      else - int (bit_length (\<lceil>1 / q\<rceil> - 1)))"

definition round_half_even :: "rat \<Rightarrow> int" where
  "round_half_even q =
     (let f = \<lfloor>q\<rfloor>; d = q - of_int f
      in if d < 1 / 2 then f else if 1 / 2 < d then f + 1
         else if even f then f else f + 1)"

definition fl :: "rat \<Rightarrow> rat" where
  \<comment> \<open>The binary64 number nearest to \<open>q\<close>.\<close>
  "fl q =
     (if q = 0 then 0
      else let e = max (floor_log2 \<bar>q\<bar> - 52) (- 1074)
           in of_int (round_half_even (q / (2 powi e))) * (2 powi e))"

definition float_add :: "rat \<Rightarrow> rat \<Rightarrow> rat" where
  "float_add a b = fl (a + b)"

definition float_sub :: "rat \<Rightarrow> rat \<Rightarrow> rat" where
  "float_sub a b = fl (a - b)"

definition eps :: rat where
  \<comment> \<open>The literal \<open>1e-6\<close>.\<close>
  "eps = fl (1 / 1000000)"

section \<open>Data model\<close>

text \<open>
  The measurement table has the columns \<open>NUTS_ID\<close>, \<open>YEAR\<close>, \<open>SEX\<close>, \<open>age\<close> and
  \<open>VALUE\<close>. A cell of a key column is \<open>None\<close> where pandas holds its missing marker.
  The \<open>VALUE\<close> column is read as it stands in the file (\<open>raw\<close>) and is numeric after
  \<open>pd.to_numeric\<close>, where \<open>None\<close> is NaN.
\<close>

datatype raw = RNum rat | RText string | RNaN

record 'v measurement =
  NUTS_ID :: "string option"
  YEAR :: "int option"
  SEX :: "string option"
  age :: "string option"
  VALUE :: 'v

text \<open>
  The frame that \<open>merge\<close> returns has the columns of the geometry set followed by the
  remaining columns of the measurement table; \<open>get_merged_gdf\<close> then adds \<open>NUTS_Name\<close>
  and \<open>NUTS_Code\<close>.
\<close>

record joined_row = region +
  YEAR :: "int option"
  SEX :: "string option"
  age :: "string option"
  VALUE :: "rat option"

record merged_row = joined_row +
  NUTS_Name :: string
  NUTS_Code :: "string option"

text \<open>
  What \<open>pd.read_excel\<close> returns for one file: the column names and the rows. The files on
  disk: the pickled geometry set (\<open>None\<close> when the file does not exist), the listing of the
  Excel folder with the outcome of reading each file (\<open>None\<close> when \<open>pd.read_excel\<close>
  raises), and the number pandas reads from a text cell (\<open>None\<close> when it reads none).
\<close>

record excel_file =
  columns :: "string list"
  rows :: "raw measurement list"

record env =
  greek_pickle :: "region list option"
  excel_folder :: "(string \<times> excel_file option) list"
  numeric_text :: "string \<Rightarrow> rat option"

section \<open>Loading the measurement table\<close>

definition fill_missing :: "string list \<Rightarrow> raw measurement \<Rightarrow> raw measurement" where
  \<comment> \<open>\<open>pd.concat\<close> fills the columns a file does not have with the missing marker.\<close>
  "fill_missing cols r =
     \<lparr> measurement.NUTS_ID = (if ''NUTS_ID'' \<in> set cols then measurement.NUTS_ID r else None),
       measurement.YEAR = (if ''YEAR'' \<in> set cols then measurement.YEAR r else None),
       measurement.SEX = (if ''SEX'' \<in> set cols then measurement.SEX r else None),
       measurement.age = (if ''age'' \<in> set cols then measurement.age r else None),
       measurement.VALUE = (if ''VALUE'' \<in> set cols then measurement.VALUE r else RNaN) \<rparr>"

definition pd_concat :: "excel_file list \<Rightarrow> excel_file" where
  "pd_concat df_list =
     \<lparr> columns = remdups (concat (map columns df_list)),
       rows = concat (map (\<lambda>f. map (fill_missing (columns f)) (rows f)) df_list) \<rparr>"

definition to_numeric :: "(string \<Rightarrow> rat option) \<Rightarrow> raw \<Rightarrow> rat option" where
  \<comment> \<open>\<open>pd.to_numeric(..., errors="coerce")\<close> on one cell.\<close>
  "to_numeric num c = (case c of RNum x \<Rightarrow> Some x | RText s \<Rightarrow> num s | RNaN \<Rightarrow> None)"

definition coerce_row ::
  "(string \<Rightarrow> rat option) \<Rightarrow> raw measurement \<Rightarrow> rat option measurement" where
  "coerce_row num r =
     \<lparr> measurement.NUTS_ID = measurement.NUTS_ID r,
       measurement.YEAR = measurement.YEAR r,
       measurement.SEX = measurement.SEX r,
       measurement.age = measurement.age r,
       measurement.VALUE = to_numeric num (measurement.VALUE r) \<rparr>"

definition required_columns :: "string list" where
  "required_columns = [''NUTS_ID'', ''YEAR'', ''SEX'', ''age'', ''VALUE'']"

definition all_files :: "env \<Rightarrow> (string \<times> excel_file option) list" where
  \<comment> \<open>The entries of the folder whose name ends with \<open>.xlsx\<close>, in any case of letters.\<close>
  "all_files ev = filter (\<lambda>(f, _). endswith (lower f) ''.xlsx'') (excel_folder ev)"

definition df_list :: "env \<Rightarrow> excel_file list" where
  \<comment> \<open>The loop over \<open>all_files\<close>: a file that cannot be read is reported and skipped.\<close>
  "df_list ev =
     concat (map (\<lambda>(fname, r). case r of Some df_temp \<Rightarrow> [df_temp] | None \<Rightarrow> [])
               (all_files ev))"

definition read_default_data :: "env \<Rightarrow> error + rat option measurement list" where
  \<comment> \<open>The body of \<open>load_default_data\<close>.\<close>
  "read_default_data ev =
     (if all_files ev = [] then Inl NoExcelFiles
      else if df_list ev = [] then Inl NoValidExcel
      else let df_all = pd_concat (df_list ev)
           in case filter (\<lambda>col. col \<notin> set (columns df_all)) required_columns of
                col # _ \<Rightarrow> Inl (MissingColumn col)
              | [] \<Rightarrow> Inr (map (coerce_row (numeric_text ev)) (rows df_all)))"

section \<open>Merging\<close>

definition row_matches :: "int \<Rightarrow> string \<Rightarrow> string \<Rightarrow> 'v measurement \<Rightarrow> bool" where
  "row_matches year sex ag r =
     (measurement.YEAR r = Some year \<and> measurement.SEX r = Some sex
      \<and> measurement.age r = Some ag)"

definition join_row :: "region \<Rightarrow> rat option measurement option \<Rightarrow> joined_row" where
  \<comment> \<open>A row of the left frame with the columns of the matching right row, or with missing
      markers when no right row matches.\<close>
  "join_row l r = region.extend l
     (case r of
        None \<Rightarrow> \<lparr> YEAR = None, SEX = None, age = None, VALUE = None \<rparr>
      | Some m \<Rightarrow> \<lparr> YEAR = measurement.YEAR m, SEX = measurement.SEX m,
                    age = measurement.age m, VALUE = measurement.VALUE m \<rparr>)"

definition merge_left :: "region list \<Rightarrow> rat option measurement list \<Rightarrow> joined_row list" where
  \<comment> \<open>\<open>left.merge(right, how="left", on="NUTS_ID")\<close>: the left rows in their order, each
      once per matching right row, and once when there is none.\<close>
  "merge_left left right =
     concat (map (\<lambda>l. case filter (\<lambda>r. measurement.NUTS_ID r = region.NUTS_ID l) right of
                         [] \<Rightarrow> [join_row l None]
                       | ms \<Rightarrow> map (\<lambda>m. join_row l (Some m)) ms) left)"

definition add_nuts_info :: "joined_row \<Rightarrow> merged_row" where
  "add_nuts_info row = joined_row.extend row
     \<lparr> NUTS_Name = fst (get_nuts_info row), NUTS_Code = snd (get_nuts_info row) \<rparr>"

definition assign_nuts_info :: "joined_row list \<Rightarrow> error + merged_row list" where
  \<comment> \<open>\<open>zip(*merged.apply(get_nuts_info, axis=1))\<close>, unpacked into the two new columns. On a
      frame without rows \<open>zip\<close> yields nothing, and the unpacking into two names raises.\<close>
  "assign_nuts_info merged =
     (if merged = [] then Inl (ValueError ''not enough values to unpack (expected 2, got 0)'')
      else Inr (map add_nuts_info merged))"

definition merge_frames ::
  "region list \<Rightarrow> rat option measurement list \<Rightarrow> int \<Rightarrow> string \<Rightarrow> string
     \<Rightarrow> error + merged_row list" where
  \<comment> \<open>The body of \<open>get_merged_gdf\<close> on the two loaded frames.\<close>
  "merge_frames gdf_greece df_all year sex ag =
     (let df_filtered = filter (row_matches year sex ag) df_all;
          merged = merge_left gdf_greece df_filtered
      in assign_nuts_info merged)"

section \<open>Translations\<close>

text \<open>
  The texts of the user interface are sequences of code points; they are only passed on to
  the charts and the page.
\<close>

type_synonym label_set = "(string \<times> nat list) list"

definition cps :: "string \<Rightarrow> nat list" where
  "cps s = map of_char s"

definition en_labels :: label_set where
  "en_labels =
     [(''title'', cps ''Greek Data Maps (NUTS3)''),
      (''select_language'', cps ''Select Language''),
      (''select_dataset'', cps ''Select Data Set''),
      (''select_year'', cps ''Select Year''),
      (''select_sex'', cps ''Select Sex''),
      (''select_age'', cps ''Select Age Group''),
      (''color_scale'', cps ''Color Scale''),
      (''default_data'', cps ''Population-NUTS DATA''),
      (''generate_map'', cps ''Generate Plots''),
      (''choropleth_map'', cps ''Choropleth Map''),
      (''bar_chart'', cps ''Bar Chart''),
      (''region'', cps ''Region''),
      (''name'', cps ''Name''),
      (''code'', cps ''Code''),
      (''value'', cps ''Value''),
      (''apply'', cps ''Apply'')]"

definition el_labels :: label_set where
  "el_labels =
     [(''title'', [935, 940, 961, 964, 949, 962, 32, 916, 949, 948, 959, 956, 941, 957, 969,
                   957, 32, 917, 955, 955, 940, 948, 945, 962, 32, 40, 78, 85, 84, 83, 51, 41]),
      (''select_language'', [917, 960, 953, 955, 941, 958, 964, 949, 32, 915, 955, 974, 963,
                   963, 945]),
      (''select_dataset'', [917, 960, 953, 955, 941, 958, 964, 949, 32, 931, 973, 957, 959,
                   955, 959, 32, 916, 949, 948, 959, 956, 941, 957, 969, 957]),
      (''select_year'', [917, 960, 953, 955, 941, 958, 964, 949, 32, 904, 964, 959, 962]),
      (''select_sex'', [917, 960, 953, 955, 941, 958, 964, 949, 32, 934, 973, 955, 959]),
      (''select_age'', [917, 960, 953, 955, 941, 958, 964, 949, 32, 927, 956, 940, 948, 945,
                   32, 919, 955, 953, 954, 943, 945, 962]),
      (''color_scale'', [922, 955, 943, 956, 945, 954, 945, 32, 935, 961, 969, 956, 940, 964,
                   969, 957]),
      (''default_data'', [916, 949, 948, 959, 956, 941, 957, 945, 32, 928, 955, 951, 952, 965,
                   963, 956, 959, 973, 32, 78, 85, 84, 83]),
      (''generate_map'', [916, 951, 956, 953, 959, 965, 961, 947, 943, 945, 32, 916, 953, 945,
                   947, 961, 945, 956, 956, 940, 964, 969, 957]),
      (''choropleth_map'', [935, 940, 961, 964, 951, 962, 32, 935, 961, 969, 956, 945, 964,
                   953, 954, 942, 962, 32, 922, 955, 943, 956, 945, 954, 945, 962]),
      (''bar_chart'', [929, 945, 946, 948, 959, 947, 961, 940, 966, 951, 956, 945]),
      (''region'', [928, 949, 961, 953, 959, 967, 942]),
      (''name'', [908, 957, 959, 956, 945]),
      (''code'', [922, 969, 948, 953, 954, 972, 962]),
      (''value'', [932, 953, 956, 942]),
      (''apply'', [917, 966, 945, 961, 956, 959, 947, 942])]"

definition translations_dict :: "(string \<times> label_set) list" where
  "translations_dict = [(''en'', en_labels), (''el'', el_labels)]"

definition dict_get :: "('k \<times> 'v) list \<Rightarrow> 'k \<Rightarrow> 'v \<Rightarrow> 'v" where
  \<comment> \<open>\<open>d.get(k, default)\<close>\<close>
  "dict_get d k dflt = (case map_of d k of Some v \<Rightarrow> v | None \<Rightarrow> dflt)"

definition select_trans :: "string \<Rightarrow> label_set" where
  \<comment> \<open>\<open>translations_dict.get(language, translations_dict["en"])\<close>\<close>
  "select_trans language = dict_get translations_dict language en_labels"

section \<open>Charts\<close>

text \<open>
  A chart is modelled by what is handed to the plotting library: the rows drawn, the colour
  range, the colour scale and the label set. The map centre, which depends on the geometry
  alone, and the markup the library writes are left out.
\<close>

definition dropna :: "'a option list \<Rightarrow> 'a list" where
  "dropna xs = concat (map (\<lambda>v. case v of None \<Rightarrow> [] | Some x \<Rightarrow> [x]) xs)"

datatype range_branch = AllMissing | Widened | Spread

definition color_range :: "merged_row list \<Rightarrow> (rat \<times> rat) \<times> range_branch" where
  \<comment> \<open>The colour range of \<open>get_choropleth_html\<close>, with the branch that computed it.\<close>
  "color_range merged_gdf =
     (let vals = dropna (map joined_row.VALUE merged_gdf)
      in if length vals = 0 then ((0, 1), AllMissing)
         else let val_min = Min (set vals); val_max = Max (set vals)
              in if val_min = val_max
                 then ((float_sub val_min eps, float_add val_max eps), Widened)
                 else ((val_min, val_max), Spread))"

record map_chart =
  map_rows :: "merged_row list"
  range_color :: "rat \<times> rat"
  map_color_scale :: string
  map_labels :: label_set

record bar_chart =
  bar_rows :: "merged_row list"
  bar_color_scale :: string
  bar_labels :: label_set

definition choropleth_figure :: "merged_row list \<Rightarrow> string \<Rightarrow> string \<Rightarrow> map_chart" where
  "choropleth_figure merged_gdf color_scale language =
     (let trans = select_trans language
      in \<lparr> map_rows = merged_gdf, range_color = fst (color_range merged_gdf),
           map_color_scale = color_scale, map_labels = trans \<rparr>)"

definition value_positive :: "merged_row \<Rightarrow> bool" where
  \<comment> \<open>\<open>VALUE > 0\<close>, which is false on NaN.\<close>
  "value_positive r = (case joined_row.VALUE r of None \<Rightarrow> False | Some v \<Rightarrow> 0 < v)"

definition bar_figure :: "merged_row list \<Rightarrow> string \<Rightarrow> string \<Rightarrow> bar_chart" where
  "bar_figure merged0 color_scale language =
     (let trans = select_trans language;
          merged = filter value_positive merged0;
          merged_sorted = sort_key NUTS_Name merged
      in \<lparr> bar_rows = merged_sorted, bar_color_scale = color_scale, bar_labels = trans \<rparr>)"

section \<open>The store and the caches\<close>

text \<open>
  Frames are objects, and \<open>functools.lru_cache\<close> keeps references to them. The store is the
  list of the frames allocated so far; an address is a position in it. A function on the
  store takes the store and returns its result, or the error it raises, with the new store.
  Reading an address that holds no frame of the expected kind is a \<open>TypeError\<close>.
\<close>

datatype frame =
    Gdf "region list"
  | Df "rat option measurement list"
  | Joined "joined_row list"
  | Merged "merged_row list"

record state =
  heap :: "frame list"
  shapefile_cache :: "nat option"
  data_cache :: "nat option"
  merged_cache :: "((int \<times> string \<times> string) \<times> nat) list"

definition init_state :: state where
  "init_state = \<lparr> heap = [], shapefile_cache = None, data_cache = None, merged_cache = [] \<rparr>"

type_synonym 'a result = "(error + 'a) \<times> state"

text \<open>
  A function that raises returns the error with the store as it is at that moment: what
  was allocated and cached before the exception stays.
\<close>

definition bind :: "'a result \<Rightarrow> ('a \<Rightarrow> state \<Rightarrow> 'b result) \<Rightarrow> 'b result" where
  "bind m f = (case m of (Inl e, st) \<Rightarrow> (Inl e, st) | (Inr a, st) \<Rightarrow> f a st)"

definition raise :: "error \<Rightarrow> state \<Rightarrow> 'a result" where
  "raise e st = (Inl e, st)"

definition alloc :: "frame \<Rightarrow> state \<Rightarrow> nat result" where
  "alloc fr st = (Inr (length (heap st)), st\<lparr>heap := heap st @ [fr]\<rparr>)"

definition heap_get :: "state \<Rightarrow> nat \<Rightarrow> frame option" where
  "heap_get st a = (if a < length (heap st) then Some (heap st ! a) else None)"

definition load_shapefile :: "env \<Rightarrow> state \<Rightarrow> nat result" where
  "load_shapefile ev st =
     (case shapefile_cache st of
        Some a \<Rightarrow> (Inr a, st)
      | None \<Rightarrow>
          (case greek_pickle ev of
             None \<Rightarrow> raise PickleNotFound st
           | Some gdf_greece \<Rightarrow>
               bind (alloc (Gdf gdf_greece) st)
                 (\<lambda>a st1. (Inr a, st1\<lparr>shapefile_cache := Some a\<rparr>))))"

definition load_default_data :: "env \<Rightarrow> state \<Rightarrow> nat result" where
  "load_default_data ev st =
     (case data_cache st of
        Some a \<Rightarrow> (Inr a, st)
      | None \<Rightarrow>
          (case read_default_data ev of
             Inl e \<Rightarrow> raise e st
           | Inr df_all \<Rightarrow>
               bind (alloc (Df df_all) st)
                 (\<lambda>a st1. (Inr a, st1\<lparr>data_cache := Some a\<rparr>))))"

definition frame_filter :: "int \<Rightarrow> string \<Rightarrow> string \<Rightarrow> nat \<Rightarrow> state \<Rightarrow> nat result" where
  \<comment> \<open>\<open>df_all[mask]\<close>: a new frame with the rows that match.\<close>
  "frame_filter year sex ag d st =
     (case heap_get st d of
        Some (Df df_all) \<Rightarrow> alloc (Df (filter (row_matches year sex ag) df_all)) st
      | _ \<Rightarrow> raise TypeError st)"

definition frame_copy :: "nat \<Rightarrow> state \<Rightarrow> nat result" where
  \<comment> \<open>\<open>.copy()\<close>\<close>
  "frame_copy a st = (case heap_get st a of Some fr \<Rightarrow> alloc fr st | None \<Rightarrow> raise TypeError st)"

definition frame_merge :: "nat \<Rightarrow> nat \<Rightarrow> state \<Rightarrow> nat result" where
  \<comment> \<open>\<open>gdf_greece.merge(df_filtered, how="left", on="NUTS_ID")\<close>: a new frame.\<close>
  "frame_merge g c st =
     (case (heap_get st g, heap_get st c) of
        (Some (Gdf gdf_greece), Some (Df df_filtered)) \<Rightarrow>
          alloc (Joined (merge_left gdf_greece df_filtered)) st
      | _ \<Rightarrow> raise TypeError st)"

definition assign_nuts_columns :: "nat \<Rightarrow> state \<Rightarrow> nat result" where
  \<comment> \<open>The assignment to \<open>merged["NUTS_Name"], merged["NUTS_Code"]\<close>: it raises when the
      unpacking does, and changes the frame \<open>merged\<close> in place otherwise.\<close>
  "assign_nuts_columns m st =
     (case heap_get st m of
        Some (Joined merged) \<Rightarrow>
          (case assign_nuts_info merged of
             Inl e \<Rightarrow> raise e st
           | Inr with_names \<Rightarrow> (Inr m, st\<lparr>heap := (heap st)[m := Merged with_names]\<rparr>))
      | _ \<Rightarrow> raise TypeError st)"

definition get_merged_gdf :: "env \<Rightarrow> int \<Rightarrow> string \<Rightarrow> string \<Rightarrow> state \<Rightarrow> nat result" where
  \<comment> \<open>A call that raises is not cached.\<close>
  "get_merged_gdf ev year sex ag st =
     (case map_of (merged_cache st) (year, sex, ag) of
        Some m \<Rightarrow> (Inr m, st)
      | None \<Rightarrow>
          bind (load_shapefile ev st) (\<lambda>gdf_greece st1.
          bind (load_default_data ev st1) (\<lambda>df_all st2.
          bind (frame_filter year sex ag df_all st2) (\<lambda>selected st3.
          bind (frame_copy selected st3) (\<lambda>df_filtered st4.
          bind (frame_merge gdf_greece df_filtered st4) (\<lambda>merged st5.
          bind (assign_nuts_columns merged st5) (\<lambda>merged st6.
            (Inr merged,
             st6\<lparr>merged_cache := ((year, sex, ag), merged) # merged_cache st6\<rparr>))))))))"

text \<open>
  The two renderers are memoised on their arguments as well. What they return is an
  immutable string, so the memoisation changes no result, and it is not modelled.
\<close>

definition get_choropleth_html ::
  "env \<Rightarrow> int \<Rightarrow> string \<Rightarrow> string \<Rightarrow> string \<Rightarrow> string \<Rightarrow> state \<Rightarrow> map_chart result" where
  "get_choropleth_html ev year sex ag color_scale language st =
     bind (get_merged_gdf ev year sex ag st) (\<lambda>m st1.
       case heap_get st1 m of
         Some (Merged merged_gdf) \<Rightarrow>
           (Inr (choropleth_figure merged_gdf color_scale language), st1)
       | _ \<Rightarrow> raise TypeError st1)"

definition get_bar_chart_html ::
  "env \<Rightarrow> int \<Rightarrow> string \<Rightarrow> string \<Rightarrow> string \<Rightarrow> string \<Rightarrow> state \<Rightarrow> bar_chart result" where
  "get_bar_chart_html ev year sex ag color_scale language st =
     bind (get_merged_gdf ev year sex ag st) (\<lambda>m st1.
       case heap_get st1 m of
         Some (Merged merged) \<Rightarrow> (Inr (bar_figure merged color_scale language), st1)
       | _ \<Rightarrow> raise TypeError st1)"

section \<open>The request handler\<close>

function digits :: "int \<Rightarrow> string" where
  "digits n = (if n < 10 then [char_of (48 + n)]
               else digits (n div 10) @ [char_of (48 + n mod 10)])"
  by pat_completeness auto
termination
  by (relation "measure nat") auto

definition str_int :: "int \<Rightarrow> string" where
  \<comment> \<open>\<open>str(y)\<close> for an integer.\<close>
  "str_int i = (if i < 0 then CHR ''-'' # digits (- i) else digits i)"

definition str_year :: "bool \<Rightarrow> int \<Rightarrow> string" where
  \<comment> \<open>\<open>str(y)\<close> for a year of the table. A column of whole numbers with a missing cell is a
      column of floats in pandas, and \<open>str\<close> of a float that is a whole number below
      \<open>10 ^ 16\<close> ends with \<open>.0\<close>.\<close>
  "str_year as_float y = (if as_float then str_int y @ ''.0'' else str_int y)"

definition color_scales :: "string list" where
  "color_scales = [''Viridis'', ''Tealrose'', ''Inferno'', ''Turbo'', ''Plasma'', ''Cividis'']"

datatype http_method = GET | POST

record request =
  req_method :: http_method
  form :: "string \<rightharpoonup> string"

definition form_get :: "(string \<rightharpoonup> string) \<Rightarrow> string \<Rightarrow> string \<Rightarrow> string" where
  \<comment> \<open>\<open>request.form.get(k, default)\<close>\<close>
  "form_get f k dflt = (case f k of Some v \<Rightarrow> v | None \<Rightarrow> dflt)"

definition sorted_unique :: "('a :: linorder) option list \<Rightarrow> 'a list" where
  \<comment> \<open>\<open>sorted(column.dropna().unique())\<close>\<close>
  "sorted_unique col = sort (remdups (dropna col))"

definition select_year :: "int list \<Rightarrow> string \<Rightarrow> error + int" where
  \<comment> \<open>\<open>int(s) if s.isdigit() else (years_available[0] if years_available else 2023)\<close>\<close>
  "select_year years_available selected_year_str =
     (if isdigit selected_year_str then py_int selected_year_str
      else Inr (case years_available of y # _ \<Rightarrow> y | [] \<Rightarrow> 2023))"

text \<open>
  The page is modelled by the values the template writes into it. The template reads
  \<open>auto_scroll\<close> in one place only, the condition
  \<open>auto_scroll and (chart_map_html or chart_bar_html)\<close> around the script that scrolls to the
  charts. A chart is \<open>None\<close> where the handler passes the empty string.
\<close>

record template_vars =
  language_var :: string
  lang_trans_var :: label_set
  color_scales_var :: "string list"
  selected_color_scale_var :: string
  years_str_var :: "string list"
  sexes_str_var :: "string list"
  ages_str_var :: "string list"
  selected_year_str_var :: string
  selected_sex_str_var :: string
  selected_age_str_var :: string
  chart_map_html_var :: "map_chart option"
  chart_bar_html_var :: "bar_chart option"
  imop_link_var :: string
  imop_text_var :: "nat list"

record page =
  shown :: template_vars
  scroll_script :: bool

definition render_template_string :: "template_vars \<Rightarrow> bool \<Rightarrow> page" where
  "render_template_string vars auto_scroll =
     \<lparr> shown = vars,
       scroll_script = (auto_scroll \<and>
          (chart_map_html_var vars \<noteq> None \<or> chart_bar_html_var vars \<noteq> None)) \<rparr>"

definition render_charts ::
  "env \<Rightarrow> http_method \<Rightarrow> int \<Rightarrow> string \<Rightarrow> string \<Rightarrow> string \<Rightarrow> string \<Rightarrow> state
     \<Rightarrow> (map_chart option \<times> bar_chart option) result" where
  \<comment> \<open>The two charts, which are made for a POST only.\<close>
  "render_charts ev meth selected_year selected_sex selected_age selected_color_scale language st =
     (if meth = POST
      then bind (get_choropleth_html ev selected_year selected_sex selected_age
                   selected_color_scale language st) (\<lambda>chart_map_html st1.
           bind (get_bar_chart_html ev selected_year selected_sex selected_age
                   selected_color_scale language st1) (\<lambda>chart_bar_html st2.
             (Inr (Some chart_map_html, Some chart_bar_html), st2)))
      else (Inr (None, None), st))"

definition index :: "env \<Rightarrow> request \<Rightarrow> state \<Rightarrow> page result" where
  "index ev req st =
     (let language = form_get (form req) ''language'' ''en'';
          lang_trans = select_trans language;
          selected_color_scale = form_get (form req) ''color_scale'' ''Viridis'';
          form_type = form_get (form req) ''form_type'' ''top'';
          auto_scroll = (form_type = ''top'');
          imop_link = (if language = ''el'' then ''https://www.dept.aueb.gr/el/imop''
                       else ''https://www.dept.aueb.gr/en/imop'');
          imop_text = (if language = ''el'' then [917, 924, 927, 928] else cps ''EMOP'')
      in bind (load_default_data ev st) (\<lambda>d st1.
           case heap_get st1 d of
             Some (Df df_all) \<Rightarrow>
               (let years_available = sorted_unique (map measurement.YEAR df_all);
                    sexes_available = sorted_unique (map measurement.SEX df_all);
                    ages_available = sorted_unique (map measurement.age df_all);
                    years_str = map (str_year (None \<in> set (map measurement.YEAR df_all)))
                       years_available;
                    sexes_str = sexes_available;
                    ages_str = ages_available;
                    selected_year_str = form_get (form req) ''selected_year''
                       (case years_str of y # _ \<Rightarrow> y | [] \<Rightarrow> []);
                    selected_sex_str = form_get (form req) ''selected_sex''
                       (case sexes_str of x # _ \<Rightarrow> x | [] \<Rightarrow> []);
                    selected_age_str = form_get (form req) ''selected_age''
                       (case ages_str of a # _ \<Rightarrow> a | [] \<Rightarrow> [])
                in case select_year years_available selected_year_str of
                     Inl e \<Rightarrow> raise e st1
                   | Inr selected_year \<Rightarrow>
                       bind (render_charts ev (req_method req) selected_year selected_sex_str
                               selected_age_str selected_color_scale language st1)
                         (\<lambda>(chart_map_html, chart_bar_html) st2.
                            (Inr (render_template_string
                                   \<lparr> language_var = language,
                                     lang_trans_var = lang_trans,
                                     color_scales_var = color_scales,
                                     selected_color_scale_var = selected_color_scale,
                                     years_str_var = years_str,
                                     sexes_str_var = sexes_str,
                                     ages_str_var = ages_str,
                                     selected_year_str_var = selected_year_str,
                                     selected_sex_str_var = selected_sex_str,
                                     selected_age_str_var = selected_age_str,
                                     chart_map_html_var = chart_map_html,
                                     chart_bar_html_var = chart_bar_html,
                                     imop_link_var = imop_link,
                                     imop_text_var = imop_text \<rparr>
                                   auto_scroll), st2)))
           | _ \<Rightarrow> raise TypeError st1))"

section \<open>Sample data\<close>

text \<open>
  The scenario of the specification: the regions \<open>EL1\<close>, \<open>EL2\<close> and \<open>EL3\<close>, and one Excel
  file with a measurement for \<open>EL1\<close> and one for \<open>EL2\<close>. The folder also holds a file that
  cannot be read and a file that is no Excel file.
\<close>

definition region_EL1 :: region where
  "region_EL1 = \<lparr> region.NUTS_ID = Some ''EL1'', NUTS_Level_1 = LStr ''Attica'',
       NUTS_Level_2 = LStr [], NUTS_Level_3 = LStr ''Athens'', geometry = 1 \<rparr>"

definition region_EL2 :: region where
  "region_EL2 = \<lparr> region.NUTS_ID = Some ''EL2'', NUTS_Level_1 = LStr ''Crete'',
       NUTS_Level_2 = LNone, NUTS_Level_3 = LStr '' Chania '', geometry = 2 \<rparr>"

definition region_EL3 :: region where
  "region_EL3 = \<lparr> region.NUTS_ID = Some ''EL3'', NUTS_Level_1 = LStr ''Attica'',
       NUTS_Level_2 = LNaN, NUTS_Level_3 = LStr ''Athens'', geometry = 3 \<rparr>"

definition sample_gdf :: "region list" where
  "sample_gdf = [region_EL1, region_EL2, region_EL3]"

definition sample_row :: "string \<Rightarrow> 'v \<Rightarrow> 'v measurement" where
  "sample_row rid v = \<lparr> measurement.NUTS_ID = Some rid, measurement.YEAR = Some 2020,
       measurement.SEX = Some ''T'', measurement.age = Some ''TOTAL'',
       measurement.VALUE = v \<rparr>"

definition sample_file :: excel_file where
  "sample_file = \<lparr> columns = [''NUTS_ID'', ''YEAR'', ''SEX'', ''age'', ''VALUE''],
       rows = [sample_row ''EL1'' (RNum 100), sample_row ''EL2'' (RNum 200)] \<rparr>"

definition sample_env :: env where
  "sample_env = \<lparr> greek_pickle = Some sample_gdf,
       excel_folder = [(''broken.xlsx'', None), (''data.XLSX'', Some sample_file),
                       (''notes.txt'', None)],
       numeric_text = (\<lambda>s. None) \<rparr>"

definition sample_table :: "rat option measurement list" where
  "sample_table = [sample_row ''EL1'' (Some 100), sample_row ''EL2'' (Some 200)]"

text \<open>The record set that the merge returns on the sample data.\<close>

definition sample_merged :: "merged_row list" where
  "sample_merged = map add_nuts_info (merge_left sample_gdf sample_table)"

text \<open>
  A table in which the only measurement is one hundred billion, and the record set that the
  merge returns on it.
\<close>

definition big_table :: "rat option measurement list" where
  "big_table = [sample_row ''EL1'' (Some 100000000000)]"

definition big_merged :: "merged_row list" where
  "big_merged = map add_nuts_info (merge_left sample_gdf big_table)"

text \<open>The record set that the merge returns on one region and no measurement.\<close>

definition lonely_merged :: "merged_row list" where
  "lonely_merged = map add_nuts_info (merge_left [region_EL1] [])"


text \<open>The store after both loaders ran on the sample data.\<close>

definition loaded_state :: state where
  "loaded_state = \<lparr> heap = [Gdf sample_gdf, Df sample_table], shapefile_cache = Some 0,
       data_cache = Some 1, merged_cache = [] \<rparr>"

text \<open>
  A submitted form without fields, a first visit, and a request with a given \<open>form_type\<close>
  field.
\<close>

definition post_request :: request where
  "post_request = \<lparr> req_method = POST, form = Map.empty \<rparr>"

definition get_request :: request where
  "get_request = \<lparr> req_method = GET, form = Map.empty \<rparr>"

definition with_form_type :: "request \<Rightarrow> string option \<Rightarrow> request" where
  "with_form_type req x = req\<lparr> form := (form req)(''form_type'' := x) \<rparr>"

section \<open>The display name as the specification words it\<close>

text \<open>
  The specification joins the label parts that are not empty after trimming with \<open>" - "\<close>,
  and skips the parts that are empty or absent. A part is absent where the cell holds
  \<open>None\<close> or the missing marker.
\<close>

definition label_text :: "label \<Rightarrow> string" where
  "label_text v = (case v of LStr s \<Rightarrow> s | _ \<Rightarrow> [])"

definition spec_display_name :: "'a region_scheme \<Rightarrow> string" where
  "spec_display_name row =
     join '' - '' (filter (\<lambda>p. p \<noteq> [])
       (map (\<lambda>v. strip (label_text v))
          [NUTS_Level_1 row, NUTS_Level_2 row, NUTS_Level_3 row]))"

section \<open>Keys of the measurement table\<close>





section \<open>What a call leaves as it was\<close>

text \<open>
  \<open>preserved st st'\<close>: every frame of the store \<open>st\<close> is in \<open>st'\<close> at the same address with the
  same rows, and a loader cache that is filled in \<open>st\<close> refers to the same frame in \<open>st'\<close>.
\<close>

definition preserved :: "state \<Rightarrow> state \<Rightarrow> bool" where
  "preserved st st' =
     (take (length (heap st)) (heap st') = heap st
      \<and> length (heap st) \<le> length (heap st')
      \<and> (case shapefile_cache st of None \<Rightarrow> True | Some g \<Rightarrow> shapefile_cache st' = Some g)
      \<and> (case data_cache st of None \<Rightarrow> True | Some d \<Rightarrow> data_cache st' = Some d))"

text \<open>
  \<open>loaders_consistent ev st\<close>: a loader cache that is filled refers to a frame that holds
  what the loader read, the geometry set of the pickle and the table of the Excel files.
\<close>

definition loaders_consistent :: "env \<Rightarrow> state \<Rightarrow> bool" where
  "loaders_consistent ev st =
     ((case shapefile_cache st of
         None \<Rightarrow> True
       | Some g \<Rightarrow> (case greek_pickle ev of
                     None \<Rightarrow> False
                   | Some gdf_greece \<Rightarrow> heap_get st g = Some (Gdf gdf_greece)))
      \<and> (case data_cache st of
            None \<Rightarrow> True
          | Some d \<Rightarrow> (case read_default_data ev of
                        Inl e \<Rightarrow> False
                      | Inr df_all \<Rightarrow> heap_get st d = Some (Df df_all))))"

abbreviation keeps :: "env \<Rightarrow> state \<Rightarrow> state \<Rightarrow> bool" where
  "keeps ev st st' \<equiv> preserved st st' \<and> (loaders_consistent ev st \<longrightarrow> loaders_consistent ev st')"




section \<open>The columns and the rows of the files that were read\<close>

text \<open>
  The columns that at least one of the files read has, and the rows of the files read, one
  file after the other, with the columns a file lacks filled and \<open>VALUE\<close> made numeric.
\<close>

definition all_columns :: "env \<Rightarrow> string set" where
  "all_columns ev = (\<Union>f \<in> set (df_list ev). set (columns f))"

definition concat_rows :: "env \<Rightarrow> rat option measurement list" where
  "concat_rows ev =
     concat (map (\<lambda>f. map (\<lambda>r. coerce_row (numeric_text ev) (fill_missing (columns f) r)) (rows f))
               (df_list ev))"

text \<open>
  A folder with two Excel files that can be read. The second has no column \<open>age\<close> and
  holds its values as text, one of them a number and one not.
\<close>

definition text_file :: excel_file where
  "text_file = \<lparr> columns = [''NUTS_ID'', ''YEAR'', ''SEX'', ''VALUE''],
       rows = [sample_row ''EL3'' (RText ''12''), sample_row ''EL1'' (RText ''n/a'')] \<rparr>"

definition two_files_env :: env where
  "two_files_env = \<lparr> greek_pickle = Some sample_gdf,
       excel_folder = [(''a.xlsx'', Some sample_file), (''b.xlsx.bak'', Some sample_file),
                       (''c.Xlsx'', Some text_file)],
       numeric_text = (\<lambda>s. if s = ''12'' then Some 12 else None) \<rparr>"

text \<open>A folder whose only Excel file can be read and has no column \<open>VALUE\<close>.\<close>

definition schema_env :: env where
  "schema_env = \<lparr> greek_pickle = Some sample_gdf,
       excel_folder = [(''data.xlsx'',
          Some \<lparr> columns = [''NUTS_ID'', ''YEAR'', ''SEX'', ''age''], rows = [] \<rparr>)],
       numeric_text = (\<lambda>s. None) \<rparr>"

section \<open>The colour range of the map\<close>

lemma dropna_all_missing: "\<forall>v \<in> set col. v = None \<Longrightarrow> dropna col = []"
  by (induction col) (auto simp: dropna_def)

text \<open>
  C3. When every value of the merged record set is missing, the colour range of the map is
  \<open>[0, 1]\<close>, computed by the branch for the empty set of values: the range is not widened.
\<close>

theorem color_range_all_missing:
  "\<forall>r \<in> set merged_gdf. joined_row.VALUE r = None \<Longrightarrow>
     color_range merged_gdf = ((0, 1), AllMissing)"
proof -
  assume "\<forall>r \<in> set merged_gdf. joined_row.VALUE r = None"
  then have "dropna (map joined_row.VALUE merged_gdf) = []"
    by (intro dropna_all_missing) auto
  then show ?thesis by (simp add: color_range_def)
qed

theorem color_range_all_missing_witness:
  "merge_frames [region_EL1] [] 2020 ''T'' ''TOTAL'' = Inr lonely_merged
   \<and> map joined_row.VALUE lonely_merged = [None]
   \<and> color_range lonely_merged = ((0, 1), AllMissing)"
proof -
  have m: "merge_frames [region_EL1] [] 2020 ''T'' ''TOTAL'' = Inr lonely_merged"
    by (simp add: merge_frames_def assign_nuts_info_def lonely_merged_def merge_left_def)
  have v: "map joined_row.VALUE lonely_merged = [None]"
    by (simp add: lonely_merged_def merge_left_def join_row_def add_nuts_info_def
        region.extend_def joined_row.extend_def)
  then have "joined_row.VALUE ` set lonely_merged = {None}"
    by (metis list.set(1) list.set(2) set_map)
  then have h: "\<forall>r \<in> set lonely_merged. joined_row.VALUE r = None"
    by blast
  show ?thesis using m v color_range_all_missing [OF h] by simp
qed

lemma dropna_constant:
  "\<forall>x \<in> set col. x = None \<or> x = Some v \<Longrightarrow> Some v \<in> set col \<Longrightarrow> set (dropna col) = {v}"
  by (induction col) (auto simp: dropna_def)

text \<open>
  When every present value is the same number \<open>v\<close>, the range is computed by the widening
  branch, from \<open>v\<close> and the literal \<open>1e-6\<close> in floating-point arithmetic.
\<close>

lemma color_range_constant:
  assumes "\<forall>r \<in> set merged_gdf. joined_row.VALUE r = None \<or> joined_row.VALUE r = Some v"
    and "\<exists>r \<in> set merged_gdf. joined_row.VALUE r = Some v"
  shows "color_range merged_gdf = ((float_sub v eps, float_add v eps), Widened)"
proof -
  have "set (dropna (map joined_row.VALUE merged_gdf)) = {v}"
    using assms by (intro dropna_constant) force+
  then show ?thesis
    by (auto simp: color_range_def Let_def)
qed

lemma eps_value: "eps = 4722366482869645 / 4722366482869645213696"
  by code_simp

lemma widen_small: "float_sub 100 eps < 100 \<and> 100 < float_add 100 eps"
  by code_simp

lemma widen_big:
  "float_sub 100000000000 eps = 100000000000 \<and> float_add 100000000000 eps = 100000000000"
  by code_simp

lemma big_values: "map joined_row.VALUE big_merged = [Some 100000000000, None, None]"
  by (simp add: big_merged_def big_table_def merge_left_def join_row_def add_nuts_info_def
      region.extend_def joined_row.extend_def sample_gdf_def sample_row_def
      region_EL1_def region_EL2_def region_EL3_def)

lemma big_frames: "merge_frames sample_gdf big_table 2020 ''T'' ''TOTAL'' = Inr big_merged"
  by (simp add: merge_frames_def assign_nuts_info_def big_merged_def big_table_def
      sample_row_def row_matches_def merge_left_def sample_gdf_def)


lemma color_range_scenario: "color_range sample_merged = ((100, 200), Spread)"
  by (simp add: color_range_def dropna_def sample_merged_def sample_table_def merge_left_def
      join_row_def add_nuts_info_def region.extend_def joined_row.extend_def sample_gdf_def
      sample_row_def region_EL1_def region_EL2_def region_EL3_def)

text \<open>
  C4. The claim is that a record set whose present values all equal \<open>v\<close> gets the range
  \<open>[v - 1e-6, v + 1e-6]\<close>, which is never of width zero. The code computes both ends in
  floating-point arithmetic: when the only present value is \<open>100000000000.0\<close>, both
  \<open>v - 1e-6\<close> and \<open>v + 1e-6\<close> round back to \<open>v\<close>, and the widened range has width zero.
\<close>

theorem color_range_zero_width:
  "merge_frames sample_gdf big_table 2020 ''T'' ''TOTAL'' = Inr big_merged
   \<and> map joined_row.VALUE big_merged = [Some 100000000000, None, None]
   \<and> color_range big_merged = ((100000000000, 100000000000), Widened)"
  using widen_big by (simp add: color_range_def big_values big_frames dropna_def)

section \<open>Localisation\<close>

text \<open>
  C7. Both chart renderers take their labels from the entry of the translation table whose
  key is the requested language: the key \<open>el\<close> gives the Greek labels, a key of the table
  gives its entry, and a key that is not in the table gives the English labels.
\<close>

theorem select_trans_by_key:
  "map_labels (choropleth_figure merged_gdf color_scale language) = select_trans language
   \<and> bar_labels (bar_figure merged color_scale language) = select_trans language
   \<and> select_trans ''el'' = el_labels
   \<and> (\<forall>ls. map_of translations_dict language = Some ls \<longrightarrow> select_trans language = ls)
   \<and> (map_of translations_dict language = None \<longrightarrow> select_trans language = en_labels)"
  by (simp add: choropleth_figure_def bar_figure_def select_trans_def dict_get_def
      translations_dict_def Let_def)

theorem select_trans_by_key_witness:
  "map_of translations_dict ''fr'' = None \<and> select_trans ''fr'' = en_labels
   \<and> map_of translations_dict ''el'' = Some el_labels \<and> select_trans ''el'' = el_labels
   \<and> el_labels \<noteq> en_labels"
proof -
  have a: "map_of translations_dict ''fr'' = None"
    by (simp add: translations_dict_def)
  have b: "map_of translations_dict ''el'' = Some el_labels"
    by (simp add: translations_dict_def)
  have c: "el_labels \<noteq> en_labels"
    by (simp add: el_labels_def en_labels_def cps_def)
  from select_trans_by_key [of "[]" "''Viridis''" "''fr''" "[]"] a
  have "select_trans ''fr'' = en_labels" by blast
  moreover from select_trans_by_key [of "[]" "''Viridis''" "''el''" "[]"]
  have "select_trans ''el'' = el_labels" by blast
  ultimately show ?thesis using a b c by simp
qed

section \<open>The display name\<close>

lemma strip_Nil: "strip [] = []"
  by (simp add: strip_def)

lemma name_part_text:
  "v \<noteq> LNaN \<Longrightarrow>
     (if truthy v \<and> strip (py_str v) \<noteq> [] then [strip (py_str v)] else [])
     = filter (\<lambda>p. p \<noteq> []) [strip (label_text v)]"
  by (cases v) (auto simp: label_text_def strip_Nil)

text \<open>
  On a row whose label cells hold texts or \<open>None\<close>, the derived name is the one the
  specification describes, and the derived code is the region id.
\<close>

lemma get_nuts_info_text:
  "NUTS_Level_1 row \<noteq> LNaN \<Longrightarrow> NUTS_Level_2 row \<noteq> LNaN \<Longrightarrow> NUTS_Level_3 row \<noteq> LNaN \<Longrightarrow>
     get_nuts_info row = (spec_display_name row, region.NUTS_ID row)"
  by (simp add: get_nuts_info_def name_parts_def spec_display_name_def name_part_text Let_def
      del: truthy.simps py_str.simps)

lemma get_nuts_info_example:
  "get_nuts_info region_EL1 = (''Attica - Athens'', Some ''EL1'')
   \<and> get_nuts_info region_EL2 = (''Crete - Chania'', Some ''EL2'')"
  by (simp add: get_nuts_info_def name_parts_def region_EL1_def region_EL2_def
      strip_def py_isspace_def)

text \<open>
  C5. The claim is that the derived name joins the label parts that are not empty and skips
  the empty and the absent ones. The test \<open>if val and ...\<close> of the code skips \<open>None\<close> and
  the empty text, but the missing marker NaN of pandas is true in Python and \<open>str\<close> turns it
  into \<open>nan\<close>: the row with the labels \<open>Attica\<close>, NaN, \<open>Athens\<close> gets the name
  \<open>Attica - nan - Athens\<close>, where the specification gives \<open>Attica - Athens\<close>.
\<close>

theorem get_nuts_info_nan:
  "get_nuts_info region_EL3 = (''Attica - nan - Athens'', Some ''EL3'')
   \<and> spec_display_name region_EL3 = ''Attica - Athens''"
  by (simp add: get_nuts_info_def name_parts_def spec_display_name_def region_EL3_def
      label_text_def strip_def py_isspace_def)

section \<open>The selected year\<close>

lemma select_year_default: "\<not> isdigit s \<Longrightarrow> select_year (y # ys) s = Inr y"
  by (simp add: select_year_def)

lemma decimal_is_digit: "py_isdecimal_char c \<Longrightarrow> py_isdigit_char c"
  by (simp add: py_isdecimal_char_def py_isdigit_char_def Let_def)

lemma select_year_decimal:
  "s \<noteq> [] \<Longrightarrow> list_all py_isdecimal_char s \<Longrightarrow> length s \<le> 4300 \<Longrightarrow>
     select_year ys s = Inr (foldl (\<lambda>acc c. 10 * acc + digit_value c) 0 s)"
  by (auto simp: select_year_def isdigit_def py_int_def list_all_iff decimal_is_digit)

lemma select_year_examples:
  "select_year [2019, 2020] ''2020'' = Inr 2020 \<and> select_year [2019, 2020] ''20x0'' = Inr 2019
   \<and> select_year [2019, 2020] [] = Inr 2019"
  by (simp add: select_year_def isdigit_def py_isdigit_char_def py_int_def py_isdecimal_char_def
      digit_value_def)

text \<open>
  C9. The claim is that a submitted year that cannot be parsed makes the handler take the
  first available year. The code guards \<open>int\<close> with \<open>str.isdigit\<close>, which also accepts the
  superscript digits that \<open>int\<close> rejects: for the one-character string made of the
  superscript two (code point \<open>0xB2\<close>) the guard holds and \<open>int\<close> raises \<open>ValueError\<close>, so the
  request fails where the claim promises the first available year.
\<close>

theorem select_year_superscript:
  "isdigit [CHR 0xB2] \<and> select_year [2020] [CHR 0xB2] = Inl (ValueError [CHR 0xB2])"
  by (simp add: select_year_def isdigit_def py_isdigit_char_def py_int_def py_isdecimal_char_def)

section \<open>The bar chart\<close>

lemma value_positive_iff:
  "value_positive r = (\<exists>v. joined_row.VALUE r = Some v \<and> 0 < v)"
  by (cases "joined_row.VALUE r") (simp_all add: value_positive_def)

text \<open>
  C2. The bar chart draws exactly the merged rows whose value is present and greater than
  zero, each as often as it occurs, and draws them in ascending order of display name. The
  order of rows with equal names is that of the stable sort of the model; pandas leaves it
  open, and the claim does not speak of it.
\<close>

theorem bar_rows_positive_sorted:
  "mset (bar_rows (bar_figure merged color_scale language))
     = filter_mset (\<lambda>r. \<exists>v. joined_row.VALUE r = Some v \<and> 0 < v) (mset merged)
   \<and> sorted (map NUTS_Name (bar_rows (bar_figure merged color_scale language)))"
  by (simp add: bar_figure_def Let_def value_positive_iff [abs_def])

lemma bar_rows_scenario:
  "map region.NUTS_ID (bar_rows (bar_figure sample_merged ''Viridis'' ''en''))
     = [Some ''EL1'', Some ''EL2'']
   \<and> map NUTS_Name (bar_rows (bar_figure sample_merged ''Viridis'' ''en''))
     = [''Attica - Athens'', ''Crete - Chania'']"
  by code_simp

section \<open>Loading the measurement table: the outcomes\<close>

lemma columns_pd_concat: "set (columns (pd_concat fs)) = (\<Union>f \<in> set fs. set (columns f))"
  by (simp add: pd_concat_def)

lemma rows_pd_concat:
  "map (coerce_row num) (rows (pd_concat fs)) =
     concat (map (\<lambda>f. map (\<lambda>r. coerce_row num (fill_missing (columns f) r)) (rows f)) fs)"
  by (simp add: pd_concat_def map_concat comp_def)

lemma df_list_skip:
  "df_list (ev\<lparr>excel_folder := xs @ (f, None) # ys\<rparr>) = df_list (ev\<lparr>excel_folder := xs @ ys\<rparr>)"
  by (simp add: df_list_def all_files_def)

lemma missing_column_iff:
  "(\<exists>col rest. filter (\<lambda>col. col \<notin> A) required_columns = col # rest)
     = (\<not> set required_columns \<subseteq> A)"
proof -
  have "(filter (\<lambda>col. col \<notin> A) required_columns = []) = (set required_columns \<subseteq> A)"
    by (auto simp: filter_empty_conv)
  then show ?thesis
    by (cases "filter (\<lambda>col. col \<notin> A) required_columns") auto
qed

text \<open>
  On a first call, \<open>load_default_data\<close> raises what its body raises, and otherwise stores the
  table the body returns in a new frame, which it caches.
\<close>

text \<open>
  With two files that can be read the table has the rows of the first and then the rows of
  the second, in which the column \<open>age\<close> is filled with the missing marker, the text
  \<open>12\<close> is the number and the text \<open>n/a\<close> is missing.
\<close>

lemma read_two_files:
  "read_default_data two_files_env =
     Inr [sample_row ''EL1'' (Some 100), sample_row ''EL2'' (Some 200),
          (sample_row ''EL3'' (Some 12))\<lparr> measurement.age := None \<rparr>,
          (sample_row ''EL1'' None)\<lparr> measurement.age := None \<rparr>]"
  by code_simp

lemma load_default_data_fresh:
  "data_cache st = None \<Longrightarrow>
     load_default_data ev st =
       (case read_default_data ev of
          Inl e \<Rightarrow> (Inl e, st)
        | Inr df_all \<Rightarrow>
            (Inr (length (heap st)),
             st\<lparr>heap := heap st @ [Df df_all], data_cache := Some (length (heap st))\<rparr>))"
  by (simp add: load_default_data_def bind_def alloc_def raise_def split: sum.splits)

text \<open>
  Claim C8 says that \<open>load_default_data\<close> raises exactly when the folder has no Excel file or
  none that can be read. With the folder \<open>schema_env\<close> one file is found and read, and the
  loader raises all the same: the table has no column \<open>VALUE\<close>.
\<close>

theorem read_default_data_missing_column:
  "all_files schema_env \<noteq> [] \<and> df_list schema_env \<noteq> []
   \<and> read_default_data schema_env = Inl (MissingColumn ''VALUE'')"
  by (simp add: read_default_data_def all_files_def df_list_def schema_env_def pd_concat_def
      required_columns_def endswith_def lower_def py_lower_char_def)

text \<open>
  Claim C8, amended. A file that cannot be read is skipped: the files read are the same with
  and without it. The loader raises \<open>NoExcelFiles\<close> exactly when the folder has no Excel
  file, \<open>NoValidExcel\<close> exactly when it has Excel files and none can be read, and
  \<open>MissingColumn\<close> exactly when a file was read and one of the five required columns is in
  none of the files read. In every other case it returns the rows of the files read, one
  file after the other, with the columns a file lacks filled with the missing marker and
  \<open>VALUE\<close> made numeric.
\<close>

theorem read_default_data_outcomes:
  "df_list (ev\<lparr>excel_folder := xs @ (f, None) # ys\<rparr>) = df_list (ev\<lparr>excel_folder := xs @ ys\<rparr>)
   \<and> ((read_default_data ev = Inl NoExcelFiles) = (all_files ev = []))
   \<and> ((read_default_data ev = Inl NoValidExcel) = (all_files ev \<noteq> [] \<and> df_list ev = []))
   \<and> ((\<exists>col. read_default_data ev = Inl (MissingColumn col))
        = (df_list ev \<noteq> [] \<and> \<not> set required_columns \<subseteq> all_columns ev))
   \<and> (df_list ev \<noteq> [] \<and> set required_columns \<subseteq> all_columns ev
        \<longrightarrow> read_default_data ev = Inr (concat_rows ev))"
proof -
  have skip: "df_list (ev\<lparr>excel_folder := xs @ (f, None) # ys\<rparr>)
      = df_list (ev\<lparr>excel_folder := xs @ ys\<rparr>)"
    by (rule df_list_skip)
  have cols: "set (columns (pd_concat (df_list ev))) = all_columns ev"
    by (simp add: columns_pd_concat all_columns_def)
  show ?thesis
  proof (cases "all_files ev = []")
    case True
    then have "df_list ev = []" by (simp add: df_list_def)
    with True skip show ?thesis by (simp add: read_default_data_def)
  next
    case files: False
    show ?thesis
    proof (cases "df_list ev = []")
      case True
      with files skip show ?thesis by (simp add: read_default_data_def)
    next
      case parsed: False
      show ?thesis
      proof (cases "filter (\<lambda>col. col \<notin> all_columns ev) required_columns")
        case Nil
        then have sub: "set required_columns \<subseteq> all_columns ev"
          by (auto simp: filter_empty_conv)
        from Nil files parsed have "read_default_data ev = Inr (concat_rows ev)"
          by (simp add: read_default_data_def cols Let_def rows_pd_concat concat_rows_def)
        with files parsed sub skip show ?thesis by simp
      next
        case (Cons col rest)
        then have nsub: "\<not> set required_columns \<subseteq> all_columns ev"
          using missing_column_iff [of "all_columns ev"] by blast
        from Cons files parsed have "read_default_data ev = Inl (MissingColumn col)"
          by (simp add: read_default_data_def cols Let_def)
        with files parsed nsub skip show ?thesis by simp
      qed
    qed
  qed
qed

text \<open>
  In the sample folder the file that cannot be read is skipped, the file that is no Excel
  file is not looked at, and the table is the one of the file that was read.
\<close>

theorem read_default_data_outcomes_witness:
  "all_files sample_env = [(''broken.xlsx'', None), (''data.XLSX'', Some sample_file)]
   \<and> df_list sample_env = [sample_file]
   \<and> read_default_data sample_env = Inr sample_table"
proof -
  have f: "all_files sample_env = [(''broken.xlsx'', None), (''data.XLSX'', Some sample_file)]"
    by code_simp
  then have d: "df_list sample_env = [sample_file]"
    by (simp add: df_list_def)
  have c: "set required_columns \<subseteq> all_columns sample_env"
    by (simp add: all_columns_def d required_columns_def sample_file_def)
  have r: "concat_rows sample_env = sample_table"
    by (simp add: concat_rows_def d sample_file_def sample_table_def sample_row_def
        coerce_row_def fill_missing_def to_numeric_def)
  from read_default_data_outcomes [where ev = sample_env] d c
  have "read_default_data sample_env = Inr (concat_rows sample_env)"
    by simp
  with f d r show ?thesis by simp
qed

section \<open>The store: what a call leaves as it was\<close>

lemma preserved_refl: "preserved st st"
  by (simp add: preserved_def split: option.splits)

lemma preserved_trans: "preserved a b \<Longrightarrow> preserved b c \<Longrightarrow> preserved a c"
proof -
  assume ab: "preserved a b" and bc: "preserved b c"
  have "take (length (heap a)) (heap c) = take (length (heap a)) (take (length (heap b)) (heap c))"
    using ab by (simp add: preserved_def min_def)
  also have "\<dots> = heap a"
    using ab bc by (simp add: preserved_def)
  finally have t: "take (length (heap a)) (heap c) = heap a" .
  from ab bc t show ?thesis
    by (auto simp: preserved_def split: option.splits)
qed

lemma heap_get_preserved:
  assumes "preserved st st'" and "heap_get st a = Some fr"
  shows "heap_get st' a = Some fr"
proof -
  from assms(2) have a: "a < length (heap st)" and fr: "heap st ! a = fr"
    by (auto simp: heap_get_def split: if_splits)
  from assms(1) have t: "take (length (heap st)) (heap st') = heap st"
    and l: "length (heap st) \<le> length (heap st')"
    by (simp_all add: preserved_def)
  from a have "heap st' ! a = take (length (heap st)) (heap st') ! a" by simp
  with t fr have "heap st' ! a = fr" by simp
  with a l show ?thesis by (simp add: heap_get_def)
qed

lemma loaders_consistent_preserved:
  assumes "loaders_consistent ev st" and "preserved st st'"
    and "shapefile_cache st' = shapefile_cache st" and "data_cache st' = data_cache st"
  shows "loaders_consistent ev st'"
  using assms heap_get_preserved [OF assms(2)]
  by (auto simp: loaders_consistent_def split: option.splits sum.splits)

lemma keeps_trans: "keeps ev a b \<Longrightarrow> keeps ev b c \<Longrightarrow> keeps ev a c"
  by (blast intro: preserved_trans)

lemma preserved_append: "preserved st (st\<lparr>heap := heap st @ xs\<rparr>)"
  by (simp add: preserved_def split: option.splits)

lemma keeps_append: "keeps ev st (st\<lparr>heap := heap st @ xs\<rparr>)"
  by (auto intro: preserved_append loaders_consistent_preserved)


lemma load_shapefile_keeps: "load_shapefile ev st = (r, st') \<Longrightarrow> keeps ev st st'"
  by (auto simp: load_shapefile_def bind_def alloc_def raise_def preserved_def
      loaders_consistent_def heap_get_def nth_append split: option.splits sum.splits)

lemma load_default_data_keeps: "load_default_data ev st = (r, st') \<Longrightarrow> keeps ev st st'"
  by (auto simp: load_default_data_def bind_def alloc_def raise_def preserved_def
      loaders_consistent_def heap_get_def nth_append split: option.splits sum.splits)

lemma frame_filter_keeps: "frame_filter y s g d st = (r, st') \<Longrightarrow> keeps ev st st'"
  using keeps_append [where ev = ev and st = st] preserved_refl [of st]
  by (auto simp: frame_filter_def alloc_def raise_def split: option.splits frame.splits)

lemma frame_copy_keeps: "frame_copy c st = (r, st') \<Longrightarrow> keeps ev st st'"
  using keeps_append [where ev = ev and st = st] preserved_refl [of st]
  by (auto simp: frame_copy_def alloc_def raise_def split: option.splits)

lemma bindE:
  assumes "bind m f = (r, st')"
  obtains (raised) e where "m = (Inl e, st')" and "r = Inl e"
    | (returned) a st1 where "m = (Inr a, st1)" and "f a st1 = (r, st')"
  using assms by (cases m) (auto simp: bind_def split: sum.splits)

lemma merge_assign_keeps:
  assumes "bind (frame_merge g c st) (\<lambda>merged st5.
             bind (assign_nuts_columns merged st5) (\<lambda>merged st6.
               (Inr merged, st6\<lparr>merged_cache := k merged # merged_cache st6\<rparr>))) = (r, st')"
  shows "keeps ev st st'"
proof -
  have new: "(heap st @ [x])[length (heap st) := y] = heap st @ [y]" for x y
    by simp
  from assms have "st' = st \<or> (\<exists>xs c. st' = st\<lparr>heap := heap st @ xs, merged_cache := c\<rparr>)
      \<or> (\<exists>xs. st' = st\<lparr>heap := heap st @ xs\<rparr>)"
    by (auto simp: bind_def frame_merge_def assign_nuts_columns_def alloc_def raise_def
        heap_get_def new split: option.splits frame.splits sum.splits if_splits)
  then show ?thesis
    using keeps_append [where ev = ev and st = st] preserved_refl [of st]
    by (auto simp: preserved_def loaders_consistent_def heap_get_def nth_append
        split: option.splits sum.splits)
qed


lemma get_merged_gdf_frame:
  assumes "get_merged_gdf ev year sex ag st = (r, st')"
  shows "keeps ev st st'"
proof (cases "map_of (merged_cache st) (year, sex, ag)")
  case (Some m)
  with assms have "st' = st" by (simp add: get_merged_gdf_def)
  then show ?thesis by (simp add: preserved_refl)
next
  case None
  with assms have "bind (load_shapefile ev st) (\<lambda>gdf_greece st1.
          bind (load_default_data ev st1) (\<lambda>df_all st2.
          bind (frame_filter year sex ag df_all st2) (\<lambda>selected st3.
          bind (frame_copy selected st3) (\<lambda>df_filtered st4.
          bind (frame_merge gdf_greece df_filtered st4) (\<lambda>merged st5.
          bind (assign_nuts_columns merged st5) (\<lambda>merged st6.
            (Inr merged,
             st6\<lparr>merged_cache := ((year, sex, ag), merged) # merged_cache st6\<rparr>))))))) = (r, st')"
    by (simp add: get_merged_gdf_def)
  then show ?thesis
  proof (cases rule: bindE)
    case (raised e)
    from raised(1) show ?thesis by (rule load_shapefile_keeps)
  next
    case shp: (returned g st1)
    note k1 = load_shapefile_keeps [OF shp(1)]
    from shp(2) show ?thesis
    proof (cases rule: bindE)
      case (raised e)
      from k1 load_default_data_keeps [OF raised(1)] show ?thesis by (rule keeps_trans)
    next
      case dat: (returned d st2)
      note k2 = keeps_trans [OF k1 load_default_data_keeps [OF dat(1)]]
      from dat(2) show ?thesis
      proof (cases rule: bindE)
        case (raised e)
        from k2 frame_filter_keeps [OF raised(1)] show ?thesis by (rule keeps_trans)
      next
        case sel: (returned s st3)
        note k3 = keeps_trans [OF k2 frame_filter_keeps [OF sel(1)]]
        from sel(2) show ?thesis
        proof (cases rule: bindE)
          case (raised e)
          from k3 frame_copy_keeps [OF raised(1)] show ?thesis by (rule keeps_trans)
        next
          case cpy: (returned c st4)
          note k4 = keeps_trans [OF k3 frame_copy_keeps [OF cpy(1)]]
          from k4 merge_assign_keeps [OF cpy(2)] show ?thesis by (rule keeps_trans)
        qed
      qed
    qed
  qed
qed


text \<open>
  C10. A call of \<open>get_merged_gdf\<close>, whether it returns or raises, changes no frame that was
  in the store before it: the frames the caches of \<open>load_shapefile\<close> and of
  \<open>load_default_data\<close> refer to stay at their addresses with their rows, and a cache that was
  filled still refers to the same frame. Where the two caches held what the loaders read
  before the call, they hold it after the call. The filter and the copy make new frames, the
  join makes a new frame, and the two name columns are written into that new frame only.
\<close>

theorem get_merged_gdf_keeps:
  assumes "get_merged_gdf ev year sex ag st = (r, st')"
  shows "preserved st st'
       \<and> (\<forall>a fr. heap_get st a = Some fr \<longrightarrow> heap_get st' a = Some fr)
       \<and> (loaders_consistent ev st \<longrightarrow> loaders_consistent ev st')"
proof -
  from assms have k: "keeps ev st st'"
    by (rule get_merged_gdf_frame)
  then have "preserved st st'" by simp
  then have "\<forall>a fr. heap_get st a = Some fr \<longrightarrow> heap_get st' a = Some fr"
    by (blast intro: heap_get_preserved)
  with k show ?thesis by simp
qed

text \<open>
  On the sample data with both loaders run, the call returns the address of a new frame,
  and the two loaded frames are where and what they were.
\<close>

theorem get_merged_gdf_keeps_witness:
  "fst (get_merged_gdf sample_env 2020 ''T'' ''TOTAL'' loaded_state) = Inr 4
   \<and> heap_get (snd (get_merged_gdf sample_env 2020 ''T'' ''TOTAL'' loaded_state)) 0
       = Some (Gdf sample_gdf)
   \<and> heap_get (snd (get_merged_gdf sample_env 2020 ''T'' ''TOTAL'' loaded_state)) 1
       = Some (Df sample_table)
   \<and> shapefile_cache (snd (get_merged_gdf sample_env 2020 ''T'' ''TOTAL'' loaded_state)) = Some 0
   \<and> data_cache (snd (get_merged_gdf sample_env 2020 ''T'' ''TOTAL'' loaded_state)) = Some 1
   \<and> loaders_consistent sample_env loaded_state
   \<and> loaders_consistent sample_env
        (snd (get_merged_gdf sample_env 2020 ''T'' ''TOTAL'' loaded_state))"
proof -
  let ?X = "get_merged_gdf sample_env 2020 ''T'' ''TOTAL'' loaded_state"
  have r: "fst ?X = Inr 4"
    by code_simp
  have rd: "read_default_data sample_env = Inr sample_table"
    by code_simp
  then have lc: "loaders_consistent sample_env loaded_state"
    by (simp add: loaders_consistent_def loaded_state_def sample_env_def heap_get_def)
  have k: "keeps sample_env loaded_state (snd ?X)"
    using get_merged_gdf_keeps [of sample_env 2020 "''T''" "''TOTAL''" loaded_state "fst ?X" "snd ?X"]
    by simp
  then have p: "preserved loaded_state (snd ?X)" by simp
  from k lc have lc': "loaders_consistent sample_env (snd ?X)" by simp
  have "heap_get loaded_state 0 = Some (Gdf sample_gdf)"
    by (simp add: loaded_state_def heap_get_def)
  with p have g: "heap_get (snd ?X) 0 = Some (Gdf sample_gdf)"
    by (rule heap_get_preserved)
  have "heap_get loaded_state 1 = Some (Df sample_table)"
    by (simp add: loaded_state_def heap_get_def)
  with p have d: "heap_get (snd ?X) 1 = Some (Df sample_table)"
    by (rule heap_get_preserved)
  from p have c: "shapefile_cache (snd ?X) = Some 0 \<and> data_cache (snd ?X) = Some 1"
    by (simp add: preserved_def loaded_state_def)
  from r g d c lc lc' show ?thesis by simp
qed

section \<open>The merge\<close>





















lemma join_row_id [simp]: "region.NUTS_ID (add_nuts_info (join_row l r)) = region.NUTS_ID l"
  by (simp add: add_nuts_info_def join_row_def region.extend_def joined_row.extend_def)

lemma join_row_value [simp]:
  "joined_row.VALUE (add_nuts_info (join_row l r)) =
     (case r of None \<Rightarrow> None | Some m \<Rightarrow> measurement.VALUE m)"
  by (cases r) (simp_all add: add_nuts_info_def join_row_def region.extend_def joined_row.extend_def)










text \<open>With two measurements for one key the region has two rows.\<close>

lemma merge_duplicate_key:
  "map_sum id length
     (merge_frames [region_EL1] [sample_row ''EL1'' (Some 1), sample_row ''EL1'' (Some 2)]
        2020 ''T'' ''TOTAL'') = Inr 2"
  by (simp add: merge_frames_def assign_nuts_info_def merge_left_def sample_row_def
      row_matches_def region_EL1_def)

section \<open>The request handler: the field \<open>form_type\<close>\<close>

lemma form_get_other:
  "k \<noteq> ''form_type'' \<Longrightarrow>
     form_get (form (with_form_type req x)) k dflt = form_get (form req) k dflt"
  by (simp add: form_get_def with_form_type_def)

lemma render_charts_shape:
  assumes "render_charts ev meth y s a c l st = (Inr (cm, cb), st')"
  shows "(cm \<noteq> None \<or> cb \<noteq> None) = (meth = POST)"
  using assms
  by (auto simp: render_charts_def bind_def split: if_splits prod.splits sum.splits)

lemma render_charts_get: "render_charts ev GET y s a c l st = (Inr (None, None), st)"
  by (simp add: render_charts_def)

lemma shown_render: "shown (render_template_string vars b) = vars"
  by (simp add: render_template_string_def)

lemma scroll_render:
  "scroll_script (render_template_string vars b)
     = (b \<and> (chart_map_html_var vars \<noteq> None \<or> chart_bar_html_var vars \<noteq> None))"
  by (simp add: render_template_string_def)

lemma index_shown:
  "map_sum id shown (fst (index ev (with_form_type req x) st))
     = map_sum id shown (fst (index ev req st))
   \<and> snd (index ev (with_form_type req x) st) = snd (index ev req st)"
  by (simp add: index_def Let_def bind_def raise_def form_get_other shown_render
      with_form_type_def [of req x, THEN arg_cong, of req_method]
      split: prod.splits sum.splits option.splits frame.splits)


lemma index_scroll:
  assumes "fst (index ev req st) = Inr p"
  shows "scroll_script p
     = (req_method req = POST \<and> form_get (form req) ''form_type'' ''top'' = ''top'')"
  using assms
  by (auto simp: index_def Let_def bind_def raise_def scroll_render
      split: prod.splits sum.splits option.splits frame.splits
      dest: render_charts_shape)

text \<open>
  Claim C6 says that two requests that differ in the field \<open>form_type\<close> only get the same
  response. The handler passes \<open>auto_scroll = (form_type == "top")\<close> to the template, which
  writes the script that scrolls to the charts when \<open>auto_scroll\<close> holds and a chart was
  made: of two submitted forms that differ in \<open>form_type\<close> only, the page for \<open>top\<close> has the
  script and the page for \<open>floating\<close> has not.
\<close>

theorem index_form_type_scroll:
  "map_sum id scroll_script
      (fst (index sample_env (with_form_type post_request (Some ''top'')) init_state)) = Inr True
   \<and> map_sum id scroll_script
      (fst (index sample_env (with_form_type post_request (Some ''floating'')) init_state))
        = Inr False
   \<and> index sample_env (with_form_type post_request (Some ''top'')) init_state
       \<noteq> index sample_env (with_form_type post_request (Some ''floating'')) init_state"
proof -
  have a: "map_sum id scroll_script
      (fst (index sample_env (with_form_type post_request (Some ''top'')) init_state)) = Inr True"
    by code_simp
  have b: "map_sum id scroll_script
      (fst (index sample_env (with_form_type post_request (Some ''floating'')) init_state))
        = Inr False"
    by code_simp
  from a b have "index sample_env (with_form_type post_request (Some ''top'')) init_state
       \<noteq> index sample_env (with_form_type post_request (Some ''floating'')) init_state"
    by auto
  with a b show ?thesis by simp
qed

text \<open>
  C6, amended. Two requests that differ in the field \<open>form_type\<close> only get pages with the
  same values of all template variables, or fail with the same error, and leave the same
  store. The pages differ at most in the script that scrolls to the charts: a page has it
  exactly when the request is a POST and \<open>form_type\<close> is \<open>top\<close> or absent. For a GET the two
  responses are the same.
\<close>

theorem index_form_type:
  "map_sum id shown (fst (index ev (with_form_type req a) st))
     = map_sum id shown (fst (index ev (with_form_type req b) st))
   \<and> snd (index ev (with_form_type req a) st) = snd (index ev (with_form_type req b) st)
   \<and> (req_method req = GET \<longrightarrow>
        index ev (with_form_type req a) st = index ev (with_form_type req b) st)
   \<and> (\<forall>p. fst (index ev req st) = Inr p \<longrightarrow>
        scroll_script p
          = (req_method req = POST \<and> form_get (form req) ''form_type'' ''top'' = ''top''))"
proof -
  let ?A = "index ev (with_form_type req a) st" and ?B = "index ev (with_form_type req b) st"
  have sh: "map_sum id shown (fst ?A) = map_sum id shown (fst ?B)"
    and st: "snd ?A = snd ?B"
    by (simp_all add: index_shown)
  have get: "?A = ?B" if g: "req_method req = GET"
  proof -
    have m: "req_method (with_form_type req x) = GET" for x
      using g by (simp add: with_form_type_def)
    have "fst ?A = fst ?B"
    proof (cases "fst ?A")
      case (Inl e)
      with sh show ?thesis by (cases "fst ?B") simp_all
    next
      case A: (Inr p)
      with sh obtain q where B: "fst ?B = Inr q" and eq: "shown p = shown q"
        by (cases "fst ?B") simp_all
      from index_scroll [OF A] index_scroll [OF B] have "scroll_script p = scroll_script q"
        by (simp add: m)
      with eq have "p = q" by simp
      with A B show ?thesis by simp
    qed
    with st show ?thesis by (simp add: prod_eq_iff)
  qed
  from sh st get index_scroll show ?thesis by blast
qed

theorem index_form_type_witness:
  "index sample_env (with_form_type get_request (Some ''top'')) init_state
     = index sample_env (with_form_type get_request (Some ''floating'')) init_state
   \<and> map_sum id shown
        (fst (index sample_env (with_form_type post_request (Some ''top'')) init_state))
     = map_sum id shown
        (fst (index sample_env (with_form_type post_request (Some ''floating'')) init_state))
   \<and> map_sum id scroll_script
        (fst (index sample_env (with_form_type post_request None) init_state)) = Inr True"
proof -
  let ?R = "with_form_type post_request None"
  note t = index_form_type [of sample_env _ "Some ''top''" init_state "Some ''floating''"]
  have g: "req_method get_request = GET"
    by (simp add: get_request_def)
  have "\<not> isl (fst (index sample_env ?R init_state))"
    by code_simp
  then obtain p where p: "fst (index sample_env ?R init_state) = Inr p"
    by (cases "fst (index sample_env ?R init_state)") simp_all
  have "req_method ?R = POST \<and> form_get (form ?R) ''form_type'' ''top'' = ''top''"
    by (simp add: with_form_type_def post_request_def form_get_def)
  with p index_form_type [of sample_env ?R None init_state None]
  have "scroll_script p" by blast
  with p t [of get_request] t [of post_request] g show ?thesis by simp
qed

end
